theory Spec2Isabelle
  imports Main "HOL-Library.Word"
begin

unbundle bit_operations_syntax

section \<open>The vertex batch of SymoCraft (include/renderer/batch.hpp)\<close>

text \<open>
  A shallow embedding of the class template \<^verbatim>\<open>Batch<T>\<close>. The vertex type \<^verbatim>\<open>T\<close> is the
  type variable \<open>'v\<close>; where the code hands vertices to OpenGL as raw memory, the object
  representation of a vertex is the parameter \<open>repr\<close> (a list of \<^verbatim>\<open>sizeof(T)\<close> bytes).
  Every method is a function on the state it can touch: the fields of the batch, the data
  stores of the OpenGL buffer objects, the sequence of OpenGL calls issued, and the
  diagnostics written. Behaviour that C++ leaves undefined (a write through a null pointer
  or past the end of the staging allocation, a read past the end of the caller's array) is
  a result of its own, \<open>Inl\<close>.

  Byte offsets and sizes handed to OpenGL are products in \<^verbatim>\<open>size_t\<close>; with a 64-bit
  \<^verbatim>\<open>size_t\<close> they cannot wrap for 32-bit counts, and they are natural numbers here.
\<close>

subsection \<open>Types and constants\<close>

type_synonym uint32 = "32 word"
type_synonym uint16 = "16 word"
type_synonym byte = "8 word"
type_synonym GLenum = "32 word"

text \<open>\<^verbatim>\<open>inline constexpr uint32 kMaxBatchSize = 10000000;\<close>\<close>

definition kMaxBatchSize :: uint32 where
  "kMaxBatchSize = 10000000"

text \<open>
  \<^verbatim>\<open>struct Vertex3D { glm::ivec3 pos_coord; glm::vec3 tex_coord; float normal; }\<close>:
  three 32-bit integers and four 32-bit floats, 28 bytes. The bulk upload and the vertex
  array binding use \<^verbatim>\<open>sizeof(Vertex3D)\<close> whatever \<^verbatim>\<open>T\<close> is.
\<close>

definition sizeof_Vertex3D :: nat where
  "sizeof_Vertex3D = 28"

record VertexAttribute =
  attribute_slot :: uint16
  element_amount :: uint16
  data_type :: GLenum
  offset :: uint16

text \<open>The OpenGL enumerants the code names, with the values of the OpenGL headers.\<close>

definition GL_TRIANGLES :: GLenum where
  "GL_TRIANGLES = 0x0004"

definition GL_DYNAMIC_STORAGE_BIT :: uint32 where
  "GL_DYNAMIC_STORAGE_BIT = 0x0100"

definition GL_DYNAMIC_DRAW :: uint32 where
  "GL_DYNAMIC_DRAW = 0x88E8"

text \<open>The bits \<^verbatim>\<open>glNamedBufferStorage\<close> accepts in its flags (map read, map write, persistent,
  coherent, dynamic storage, client storage).\<close>

definition storage_flag_bits :: uint32 where
  "storage_flag_bits = 0x03C3"

datatype undefined_behaviour =
    Null_pointer_write
  | Out_of_bounds_write
  | Out_of_bounds_read

datatype diagnostic =
    Logged_Error string "uint32 list"
  | Cerr string

text \<open>The OpenGL calls a batch issues, with the argument values passed (32-bit arguments as
  their 32 bits, byte offsets and sizes as numbers).\<close>

datatype gl_call =
    GlCreateBuffers uint32
  | GlCreateVertexArrays uint32
  | GlNamedBufferStorage uint32 nat uint32
  | GlVertexArrayVertexBuffer uint32 uint32 uint32 nat nat
  | GlEnableVertexArrayAttrib uint32 uint32
  | GlVertexArrayAttribFormat uint32 uint32 nat GLenum bool nat
  | GlVertexArrayAttribBinding uint32 uint32 uint32
  | GlNamedBufferSubData uint32 nat nat
  | GlBindVertexArray uint32
  | GlDrawArrays GLenum uint32 uint32

text \<open>
  The private members of \<^verbatim>\<open>Batch<T>\<close>. \<open>data\<close> is the pointer to the staging allocation:
  \<open>None\<close> is \<^verbatim>\<open>nullptr\<close>, \<open>Some mem\<close> an allocation that holds \<open>length mem\<close> records. The
  batch owns the allocation and nothing else points into it. \<open>zIndex\<close> is an \<^verbatim>\<open>int32\<close>, read
  with \<open>sint\<close>.
\<close>

record 'v Batch =
  m_vao :: uint32
  m_vertex_data_vbo :: uint32
  m_draw_command_vbo :: uint32
  m_data_size :: uint32
  m_vertex_count :: uint32
  zIndex :: uint32
  data :: "'v list option"

text \<open>
  A batch together with what its methods act on outside the object: the data stores of the
  OpenGL buffer objects by name (\<open>None\<close>: no buffer object of that name), the OpenGL calls
  issued so far, and the diagnostics written so far.
\<close>

record 'v process = "'v Batch" +
  gl_buffers :: "uint32 \<rightharpoonup> byte list"
  gl_calls :: "gl_call list"
  diagnostics :: "diagnostic list"

subsection \<open>The collaborators: logger, allocator, OpenGL\<close>

text \<open>
  Modelled from the spec: \<^verbatim>\<open>AmoLogger_Error\<close> is declared in core.h, which is not among
  the files modelled. The spec has it report a logged error after which execution
  continues (non-fatal); that two of its three uses in each \<^verbatim>\<open>AddVertex\<close> are followed by a
  \<^verbatim>\<open>return\<close> agrees with this.
\<close>

definition AmoLogger_Error :: "string \<Rightarrow> uint32 list \<Rightarrow> 'v process \<Rightarrow> 'v process" where
  "AmoLogger_Error fmt args s = s\<lparr>diagnostics := diagnostics s @ [Logged_Error fmt args]\<rparr>"

text \<open>\<^verbatim>\<open>std::cerr << text\<close>\<close>

definition std_cerr :: "string \<Rightarrow> 'v process \<Rightarrow> 'v process" where
  "std_cerr txt s = s\<lparr>diagnostics := diagnostics s @ [Cerr txt]\<rparr>"

text \<open>
  Modelled from the spec: \<^verbatim>\<open>AmoMemory_Allocate\<close> is declared in core.h, which is not among
  the files modelled. The spec has it allocate the staging region; a region of \<open>size\<close>
  bytes holds \<open>size div sizeof(T)\<close> records, whose contents are indeterminate (\<open>junk\<close>).
\<close>

definition AmoMemory_Allocate :: "nat \<Rightarrow> 'v \<Rightarrow> nat \<Rightarrow> 'v list option" where
  "AmoMemory_Allocate sizeof_T junk nbytes = Some (replicate (nbytes div sizeof_T) junk)"

text \<open>The memory a \<^verbatim>\<open>T*\<close> points to, as OpenGL reads it through a \<^verbatim>\<open>const void*\<close>.\<close>

definition bytes_of :: "('v \<Rightarrow> byte list) \<Rightarrow> 'v list \<Rightarrow> byte list" where
  "bytes_of repr mem = concat (map repr mem)"

definition gl_issue :: "gl_call \<Rightarrow> 'v process \<Rightarrow> 'v process" where
  "gl_issue c s = s\<lparr>gl_calls := gl_calls s @ [c]\<rparr>"

text \<open>\<^verbatim>\<open>glCreateBuffers(1, &name)\<close>: the implementation picks the name and creates a buffer
  object that has no data store yet.\<close>

definition glCreateBuffers :: "uint32 \<Rightarrow> 'v process \<Rightarrow> 'v process" where
  "glCreateBuffers name s =
     (gl_issue (GlCreateBuffers name) s)\<lparr>gl_buffers := (gl_buffers s)(name \<mapsto> [])\<rparr>"

definition glCreateVertexArrays :: "uint32 \<Rightarrow> 'v process \<Rightarrow> 'v process" where
  "glCreateVertexArrays name s = gl_issue (GlCreateVertexArrays name) s"

text \<open>
  \<^verbatim>\<open>glNamedBufferStorage(buffer, size, nullptr, flags)\<close>: an error that changes nothing
  when \<open>buffer\<close> names no buffer object, \<open>size\<close> is zero or \<open>flags\<close> has a bit that is not a
  storage flag; otherwise a data store of \<open>size\<close> bytes with indeterminate contents
  (\<open>fill\<close>).
\<close>

definition glNamedBufferStorage :: "uint32 \<Rightarrow> nat \<Rightarrow> byte \<Rightarrow> uint32 \<Rightarrow> 'v process \<Rightarrow> 'v process" where
  "glNamedBufferStorage buffer nbytes fill flags s =
     (let s1 = gl_issue (GlNamedBufferStorage buffer nbytes flags) s in
      case gl_buffers s buffer of
        None \<Rightarrow> s1
      | Some store \<Rightarrow>
          if nbytes = 0 \<or> flags AND NOT storage_flag_bits \<noteq> 0 then s1
          else s1\<lparr>gl_buffers := (gl_buffers s)(buffer \<mapsto> replicate nbytes fill)\<rparr>)"

text \<open>
  \<^verbatim>\<open>glNamedBufferSubData(buffer, offset, size, src)\<close>: an error that changes no data store
  when \<open>buffer\<close> names no buffer object or when \<open>offset + size\<close> exceeds the size of its data
  store; otherwise \<open>size\<close> bytes are read at \<open>src\<close> and replace the bytes of the store from
  \<open>offset\<close> on. \<open>src\<close> is the memory readable at the pointer; reading more than it holds is
  undefined. (The storage flags of a data store are not kept: the one data store \<^verbatim>\<open>init\<close>
  creates has \<^verbatim>\<open>GL_DYNAMIC_STORAGE_BIT\<close>, which this call needs.)
\<close>

definition glNamedBufferSubData ::
  "uint32 \<Rightarrow> nat \<Rightarrow> nat \<Rightarrow> byte list \<Rightarrow> 'v process \<Rightarrow> undefined_behaviour + 'v process" where
  "glNamedBufferSubData buffer off nbytes src s =
     (let s1 = gl_issue (GlNamedBufferSubData buffer off nbytes) s in
      case gl_buffers s buffer of
        None \<Rightarrow> Inr s1
      | Some store \<Rightarrow>
          if length store < off + nbytes then Inr s1
          else if length src < nbytes then Inl Out_of_bounds_read
          else Inr (s1\<lparr>gl_buffers := (gl_buffers s)
                     (buffer \<mapsto> take off store @ take nbytes src @ drop (off + nbytes) store)\<rparr>))"

definition glVertexArrayVertexBuffer ::
  "uint32 \<Rightarrow> uint32 \<Rightarrow> uint32 \<Rightarrow> nat \<Rightarrow> nat \<Rightarrow> 'v process \<Rightarrow> 'v process" where
  "glVertexArrayVertexBuffer vao bindingindex buffer off stride s =
     gl_issue (GlVertexArrayVertexBuffer vao bindingindex buffer off stride) s"

definition glBindVertexArray :: "uint32 \<Rightarrow> 'v process \<Rightarrow> 'v process" where
  "glBindVertexArray vao s = gl_issue (GlBindVertexArray vao) s"

definition glDrawArrays :: "GLenum \<Rightarrow> uint32 \<Rightarrow> uint32 \<Rightarrow> 'v process \<Rightarrow> 'v process" where
  "glDrawArrays mode first count s = gl_issue (GlDrawArrays mode first count) s"

subsection \<open>The methods of the batch\<close>

text \<open>The body of the loop over the vertex attributes in \<^verbatim>\<open>init\<close>.\<close>

definition configure_attribute :: "VertexAttribute \<Rightarrow> 'v process \<Rightarrow> 'v process" where
  "configure_attribute attribute s =
     (let attribindex = ucast (attribute_slot attribute);
          s1 = gl_issue (GlEnableVertexArrayAttrib (m_vao s) attribindex) s;
          s2 = gl_issue (GlVertexArrayAttribFormat (m_vao s1) attribindex
                 (unat (element_amount attribute)) (data_type attribute) False
                 (unat (offset attribute))) s1
      in gl_issue (GlVertexArrayAttribBinding (m_vao s2) attribindex 0) s2)"

text \<open>
  \<^verbatim>\<open>init\<close>. What the environment decides is passed in: \<open>sizeof_T\<close>, the value of
  \<^verbatim>\<open>World::chunk_radius\<close> (world/world.h is not among the files modelled), the names
  OpenGL picks for the two buffers and the vertex array, and the indeterminate contents of
  fresh memory. The assignment to the 32-bit \<open>m_data_size\<close> truncates the product.
\<close>

definition init ::
  "nat \<Rightarrow> nat \<Rightarrow> uint32 \<times> uint32 \<times> uint32 \<Rightarrow> 'v \<times> byte \<Rightarrow> VertexAttribute list
     \<Rightarrow> 'v process \<Rightarrow> 'v process" where
  "init sizeof_T chunk_radius names fresh vertex_attributes s =
     (case names of (vbo_name, cmd_name, vao_name) \<Rightarrow>
      case fresh of (junk, fill) \<Rightarrow>
      let s1 = s\<lparr>m_data_size := word_of_nat (sizeof_T * unat kMaxBatchSize)\<rparr>;
          s2 = s1\<lparr>data := AmoMemory_Allocate sizeof_T junk (unat (m_data_size s1))\<rparr>;
          s3 = s2\<lparr>m_vertex_count := 0\<rparr>;
          s4 = s3\<lparr>zIndex := 0\<rparr>;
          s5 = (glCreateBuffers vbo_name s4)\<lparr>m_vertex_data_vbo := vbo_name\<rparr>;
          s6 = (glCreateBuffers cmd_name s5)\<lparr>m_draw_command_vbo := cmd_name\<rparr>;
          s7 = (glCreateVertexArrays vao_name s6)\<lparr>m_vao := vao_name\<rparr>;
          s8 = glNamedBufferStorage (m_vertex_data_vbo s7) (unat (m_data_size s7)) fill
                 GL_DYNAMIC_STORAGE_BIT s7;
          s9 = glNamedBufferStorage (m_draw_command_vbo s8) (chunk_radius * chunk_radius) fill
                 GL_DYNAMIC_DRAW s8;
          s10 = glVertexArrayVertexBuffer (m_vao s9) 0 (m_vertex_data_vbo s9) 0 sizeof_Vertex3D s9
      in fold configure_attribute vertex_attributes s10)"

definition hasRoom :: "'v process \<Rightarrow> bool" where
  "hasRoom s = (m_vertex_count s \<le> kMaxBatchSize)"

text \<open>
  \<^verbatim>\<open>void AddVertex(const T& vertex)\<close>. The null check logs and falls through: there is no
  \<^verbatim>\<open>return\<close> after it. The store \<^verbatim>\<open>data[m_vertex_count] = vertex\<close> is undefined when \<open>data\<close>
  is null or the index is not a slot of the allocation.
\<close>

definition AddVertex :: "'v \<Rightarrow> 'v process \<Rightarrow> undefined_behaviour + 'v process" where
  "AddVertex vertex s0 =
     (let s = (if data s0 = None then AmoLogger_Error ''Invalid batch.\<newline>'' [] s0 else s0) in
      if \<not> hasRoom s then
        Inr (AmoLogger_Error ''Batch ran out of room. I have %d/%d vertices.\<newline>''
               [m_vertex_count s, kMaxBatchSize] s)
      else if m_vertex_count s < 0 then
        Inr (AmoLogger_Error ''Invalid vertex number.\<newline>'' [] s)
      else
        case data s of
          None \<Rightarrow> Inl Null_pointer_write
        | Some mem \<Rightarrow>
            if unat (m_vertex_count s) < length mem then
              Inr (s\<lparr>data := Some (mem[unat (m_vertex_count s) := vertex]),
                     m_vertex_count := m_vertex_count s + 1\<rparr>)
            else Inl Out_of_bounds_write)"

text \<open>
  \<^verbatim>\<open>void AddVertex(const T* vertex, uint32 vertex_amount)\<close>. \<open>vertex\<close> is the caller's
  array. The same three checks, then the upload into the vertex buffer and the addition to
  the 32-bit count.
\<close>

definition AddVertex_bulk ::
  "('v \<Rightarrow> byte list) \<Rightarrow> 'v list \<Rightarrow> uint32 \<Rightarrow> 'v process \<Rightarrow> undefined_behaviour + 'v process" where
  "AddVertex_bulk repr vertex vertex_amount s0 =
     (let s = (if data s0 = None then AmoLogger_Error ''Invalid batch.\<newline>'' [] s0 else s0) in
      if \<not> hasRoom s then
        Inr (AmoLogger_Error ''Batch ran out of room. I have %d/%d vertices.\<newline>''
               [m_vertex_count s, kMaxBatchSize] s)
      else if m_vertex_count s < 0 then
        Inr (AmoLogger_Error ''Invalid vertex number.\<newline>'' [] s)
      else
        case glNamedBufferSubData (m_vertex_data_vbo s)
               (unat (m_vertex_count s) * sizeof_Vertex3D)
               (unat vertex_amount * sizeof_Vertex3D) (bytes_of repr vertex) s of
          Inl ub \<Rightarrow> Inl ub
        | Inr s1 \<Rightarrow> Inr (s1\<lparr>m_vertex_count := m_vertex_count s1 + vertex_amount\<rparr>))"

definition Clear :: "'v process \<Rightarrow> 'v process" where
  "Clear s = s\<lparr>m_vertex_count := 0\<rparr>"

definition Draw :: "'v process \<Rightarrow> 'v process" where
  "Draw s =
     (if m_vertex_count s \<le> 0 then std_cerr ''No vertices to draw.\<newline>'' s
      else
        let s1 = glBindVertexArray (m_vao s) s;
            s2 = glDrawArrays GL_TRIANGLES 0 (m_vertex_count s1) s1;
            s3 = glBindVertexArray 0 s2
        in Clear s3)"

text \<open>The bytes readable at \<open>data\<close>: those of the staging allocation; none at a null pointer.\<close>

definition staging_bytes :: "('v \<Rightarrow> byte list) \<Rightarrow> 'v process \<Rightarrow> byte list" where
  "staging_bytes repr s = (case data s of None \<Rightarrow> [] | Some mem \<Rightarrow> bytes_of repr mem)"

text \<open>\<^verbatim>\<open>ReloadData\<close>: one upload of \<open>m_data_size\<close> bytes, read at \<open>data\<close>, to offset 0.\<close>

definition ReloadData :: "('v \<Rightarrow> byte list) \<Rightarrow> 'v process \<Rightarrow> undefined_behaviour + 'v process" where
  "ReloadData repr s =
     glNamedBufferSubData (m_vertex_data_vbo s) 0 (unat (m_data_size s)) (staging_bytes repr s) s"

text \<open>\<^verbatim>\<open>Free\<close>: \<^verbatim>\<open>AmoMemory_Free(data)\<close> ends the allocation, which only \<open>data\<close> referred to.\<close>

definition Free :: "'v process \<Rightarrow> 'v process" where
  "Free s = (if data s \<noteq> None then s\<lparr>data := None, m_data_size := 0\<rparr> else s)"

text \<open>\<^verbatim>\<open>operator<\<close>\<close>

definition less_Batch :: "'v process \<Rightarrow> 'v process \<Rightarrow> bool" where
  "less_Batch a batch = (sint (zIndex a) < sint (zIndex batch))"

subsection \<open>States and notions the properties speak of\<close>

text \<open>A batch object with static storage before \<^verbatim>\<open>init\<close> (renderer.h declares one,
  \<^verbatim>\<open>chunk_batch\<close>): every member zero, no OpenGL object, nothing logged.\<close>

definition zero_initialized :: "'v process" where
  "zero_initialized =
     \<lparr>m_vao = 0, m_vertex_data_vbo = 0, m_draw_command_vbo = 0, m_data_size = 0,
      m_vertex_count = 0, zIndex = 0, data = None,
      gl_buffers = Map.empty, gl_calls = [], diagnostics = []\<rparr>"

text \<open>A freshly initialized batch of a 28-byte vertex type, used for the concrete instances
  below: OpenGL names the buffers 1 and 2 and the vertex array 3, fresh memory holds zeros.\<close>

definition repr28 :: "nat \<Rightarrow> byte list" where
  "repr28 v = replicate 28 (word_of_nat v)"

definition fresh_batch :: "nat process" where
  "fresh_batch = init 28 16 (1, 2, 3) (0, 0) [] zero_initialized"

text \<open>What \<^verbatim>\<open>init\<close> establishes: a staging allocation of \<open>kMaxBatchSize\<close> records (for a vertex
  type whose \<open>kMaxBatchSize\<close> records fit the 32-bit \<open>m_data_size\<close>), and a vertex buffer whose
  data store has \<open>m_data_size\<close> bytes.\<close>

definition ready :: "'v process \<Rightarrow> bool" where
  "ready s = (case data s of None \<Rightarrow> False | Some mem \<Rightarrow> length mem = unat kMaxBatchSize)"

definition vbo_allocated :: "'v process \<Rightarrow> bool" where
  "vbo_allocated s =
     (case gl_buffers s (m_vertex_data_vbo s) of
        None \<Rightarrow> False
      | Some store \<Rightarrow> length store = unat (m_data_size s))"

text \<open>A call is successful when it returns and has reported no error.\<close>

definition successful :: "'v process \<Rightarrow> undefined_behaviour + 'v process \<Rightarrow> bool" where
  "successful s r = (case r of Inl ub \<Rightarrow> False | Inr s' \<Rightarrow> diagnostics s' = diagnostics s)"

text \<open>The diagnostics written between two states.\<close>

definition new_diagnostics :: "'v process \<Rightarrow> 'v process \<Rightarrow> diagnostic list" where
  "new_diagnostics s s' = drop (length (diagnostics s)) (diagnostics s')"

text \<open>The upload of a bulk call lies within the data store of the vertex buffer; otherwise
  OpenGL reports an error and copies nothing.\<close>

definition upload_fits :: "uint32 \<Rightarrow> 'v process \<Rightarrow> bool" where
  "upload_fits vertex_amount s =
     (case gl_buffers s (m_vertex_data_vbo s) of
        None \<Rightarrow> False
      | Some store \<Rightarrow>
          (unat (m_vertex_count s) + unat vertex_amount) * sizeof_Vertex3D \<le> length store)"

text \<open>The record in staging slot \<open>i\<close>, read as \<^verbatim>\<open>data[i]\<close>; there is none when \<open>data\<close> is null
  or \<open>i\<close> is not a slot of the allocation.\<close>

definition slot :: "'v process \<Rightarrow> nat \<Rightarrow> 'v option" where
  "slot s i =
     (case data s of
        None \<Rightarrow> None
      | Some mem \<Rightarrow> if i < length mem then Some (mem ! i) else None)"

text \<open>Single-vertex calls one after the other; undefined behaviour ends the run.\<close>

fun AddVertex_each :: "'v list \<Rightarrow> 'v process \<Rightarrow> undefined_behaviour + 'v process" where
  "AddVertex_each [] s = Inr s"
| "AddVertex_each (v # vs) s =
     (case AddVertex v s of Inl ub \<Rightarrow> Inl ub | Inr s' \<Rightarrow> AddVertex_each vs s')"

fun each_successful :: "'v list \<Rightarrow> 'v process \<Rightarrow> bool" where
  "each_successful [] s = True"
| "each_successful (v # vs) s =
     (successful s (AddVertex v s) \<and>
      (case AddVertex v s of Inl ub \<Rightarrow> False | Inr s' \<Rightarrow> each_successful vs s'))"

text \<open>
  What \<^verbatim>\<open>ReloadData\<close> relies on: the bytes readable at \<open>data\<close> are \<open>m_data_size\<close> many (none
  once \<^verbatim>\<open>Free\<close> has set both to null and zero), and the vertex buffer has a data store of at
  least \<open>m_data_size\<close> bytes.
\<close>

definition reload_ready :: "('v \<Rightarrow> byte list) \<Rightarrow> 'v process \<Rightarrow> bool" where
  "reload_ready repr s =
     (length (staging_bytes repr s) = unat (m_data_size s) \<and>
      (case gl_buffers s (m_vertex_data_vbo s) of
         None \<Rightarrow> False
       | Some store \<Rightarrow> unat (m_data_size s) \<le> length store))"

text \<open>The public methods other than \<^verbatim>\<open>init\<close>, as calls, and sequences of such calls.\<close>

datatype 'v method_call =
    Call_AddVertex 'v
  | Call_AddVertex_bulk "'v list" uint32
  | Call_Draw
  | Call_ReloadData
  | Call_Clear
  | Call_Free

fun call ::
  "('v \<Rightarrow> byte list) \<Rightarrow> 'v method_call \<Rightarrow> 'v process \<Rightarrow> undefined_behaviour + 'v process" where
  "call repr (Call_AddVertex v) s = AddVertex v s"
| "call repr (Call_AddVertex_bulk vs n) s = AddVertex_bulk repr vs n s"
| "call repr Call_Draw s = Inr (Draw s)"
| "call repr Call_ReloadData s = ReloadData repr s"
| "call repr Call_Clear s = Inr (Clear s)"
| "call repr Call_Free s = Inr (Free s)"

fun calls ::
  "('v \<Rightarrow> byte list) \<Rightarrow> 'v method_call list \<Rightarrow> 'v process
     \<Rightarrow> undefined_behaviour + 'v process" where
  "calls repr [] s = Inr s"
| "calls repr (c # cs) s =
     (case call repr c s of Inl ub \<Rightarrow> Inl ub | Inr s' \<Rightarrow> calls repr cs s')"

subsection \<open>Frame lemmas for the collaborators\<close>

lemma gl_issue_sel [simp]:
  "data (gl_issue c s) = data s"
  "m_vertex_count (gl_issue c s) = m_vertex_count s"
  "m_data_size (gl_issue c s) = m_data_size s"
  "m_vertex_data_vbo (gl_issue c s) = m_vertex_data_vbo s"
  "m_draw_command_vbo (gl_issue c s) = m_draw_command_vbo s"
  "m_vao (gl_issue c s) = m_vao s"
  "zIndex (gl_issue c s) = zIndex s"
  "gl_buffers (gl_issue c s) = gl_buffers s"
  "diagnostics (gl_issue c s) = diagnostics s"
  "gl_calls (gl_issue c s) = gl_calls s @ [c]"
  by (simp_all add: gl_issue_def)

lemma glCreateBuffers_sel [simp]:
  "data (glCreateBuffers n s) = data s"
  "m_vertex_count (glCreateBuffers n s) = m_vertex_count s"
  "m_data_size (glCreateBuffers n s) = m_data_size s"
  "m_vertex_data_vbo (glCreateBuffers n s) = m_vertex_data_vbo s"
  "m_draw_command_vbo (glCreateBuffers n s) = m_draw_command_vbo s"
  "m_vao (glCreateBuffers n s) = m_vao s"
  "zIndex (glCreateBuffers n s) = zIndex s"
  "gl_buffers (glCreateBuffers n s) = (gl_buffers s)(n \<mapsto> [])"
  "diagnostics (glCreateBuffers n s) = diagnostics s"
  "gl_calls (glCreateBuffers n s) = gl_calls s @ [GlCreateBuffers n]"
  by (simp_all add: glCreateBuffers_def)

lemma glNamedBufferStorage_sel [simp]:
  "data (glNamedBufferStorage b n f fl s) = data s"
  "m_vertex_count (glNamedBufferStorage b n f fl s) = m_vertex_count s"
  "m_data_size (glNamedBufferStorage b n f fl s) = m_data_size s"
  "m_vertex_data_vbo (glNamedBufferStorage b n f fl s) = m_vertex_data_vbo s"
  "m_draw_command_vbo (glNamedBufferStorage b n f fl s) = m_draw_command_vbo s"
  "m_vao (glNamedBufferStorage b n f fl s) = m_vao s"
  "zIndex (glNamedBufferStorage b n f fl s) = zIndex s"
  "diagnostics (glNamedBufferStorage b n f fl s) = diagnostics s"
  "gl_calls (glNamedBufferStorage b n f fl s) = gl_calls s @ [GlNamedBufferStorage b n fl]"
  by (simp_all add: glNamedBufferStorage_def Let_def split: option.splits)

lemma glNamedBufferStorage_buffers:
  "gl_buffers (glNamedBufferStorage b n f fl s) =
     (if gl_buffers s b \<noteq> None \<and> n \<noteq> 0 \<and> fl AND NOT storage_flag_bits = 0
      then (gl_buffers s)(b \<mapsto> replicate n f) else gl_buffers s)"
  by (simp add: glNamedBufferStorage_def Let_def split: option.splits)

lemma configure_attribute_sel [simp]:
  "data (configure_attribute a s) = data s"
  "m_vertex_count (configure_attribute a s) = m_vertex_count s"
  "m_data_size (configure_attribute a s) = m_data_size s"
  "m_vertex_data_vbo (configure_attribute a s) = m_vertex_data_vbo s"
  "m_draw_command_vbo (configure_attribute a s) = m_draw_command_vbo s"
  "m_vao (configure_attribute a s) = m_vao s"
  "zIndex (configure_attribute a s) = zIndex s"
  "gl_buffers (configure_attribute a s) = gl_buffers s"
  "diagnostics (configure_attribute a s) = diagnostics s"
  by (simp_all add: configure_attribute_def Let_def)

lemma fold_configure_attribute_sel [simp]:
  "data (fold configure_attribute as s) = data s"
  "m_vertex_count (fold configure_attribute as s) = m_vertex_count s"
  "m_data_size (fold configure_attribute as s) = m_data_size s"
  "m_vertex_data_vbo (fold configure_attribute as s) = m_vertex_data_vbo s"
  "m_draw_command_vbo (fold configure_attribute as s) = m_draw_command_vbo s"
  "m_vao (fold configure_attribute as s) = m_vao s"
  "zIndex (fold configure_attribute as s) = zIndex s"
  "gl_buffers (fold configure_attribute as s) = gl_buffers s"
  "diagnostics (fold configure_attribute as s) = diagnostics s"
  by (induction as arbitrary: s) simp_all

lemmas init_unfold = init_def Let_def glCreateVertexArrays_def glVertexArrayVertexBuffer_def

lemma init_members:
  "m_vertex_count (init szT r names fresh as s) = 0"
  "zIndex (init szT r names fresh as s) = 0"
  "m_data_size (init szT r names fresh as s) = word_of_nat (szT * unat kMaxBatchSize)"
  "m_vertex_data_vbo (init szT r names fresh as s) = fst names"
  "m_draw_command_vbo (init szT r names fresh as s) = fst (snd names)"
  "m_vao (init szT r names fresh as s) = snd (snd names)"
  "diagnostics (init szT r names fresh as s) = diagnostics s"
  by (cases names; cases fresh; simp add: init_unfold)+

lemma init_data:
  "data (init szT r names fresh as s) =
     Some (replicate (unat (word_of_nat (szT * unat kMaxBatchSize) :: uint32) div szT) (fst fresh))"
  by (cases names; cases fresh) (simp add: init_unfold AmoMemory_Allocate_def)

lemma init_vertex_buffer:
  assumes "(word_of_nat (szT * unat kMaxBatchSize) :: uint32) \<noteq> 0"
  shows "gl_buffers (init szT r names fresh as s) (fst names) =
     Some (replicate (unat (word_of_nat (szT * unat kMaxBatchSize) :: uint32)) (snd fresh))"
  using assms
  by (cases names; cases fresh)
     (simp add: init_unfold glNamedBufferStorage_buffers GL_DYNAMIC_STORAGE_BIT_def
        GL_DYNAMIC_DRAW_def storage_flag_bits_def unat_eq_0)

lemma init_ready:
  assumes "0 < szT" and "szT * unat kMaxBatchSize < 2 ^ 32"
  shows "ready (init szT r names fresh as s)" and "vbo_allocated (init szT r names fresh as s)"
proof -
  from assms(2) have size: "unat (word_of_nat (szT * unat kMaxBatchSize) :: uint32) = szT * unat kMaxBatchSize"
    unfolding unat_of_nat by simp
  from assms(1) have "szT * unat kMaxBatchSize \<noteq> 0"
    by (simp add: kMaxBatchSize_def)
  with size have nz: "(word_of_nat (szT * unat kMaxBatchSize) :: uint32) \<noteq> 0"
    by (metis unat_0)
  from assms(1) size show "ready (init szT r names fresh as s)"
    by (simp add: ready_def init_data)
  from size show "vbo_allocated (init szT r names fresh as s)"
    by (simp add: vbo_allocated_def init_members init_vertex_buffer [OF nz])
qed

lemma fresh_batch_members:
  "m_vertex_count fresh_batch = 0"
  "m_data_size fresh_batch = 280000000"
  "m_vertex_data_vbo fresh_batch = 1"
  "m_draw_command_vbo fresh_batch = 2"
  "m_vao fresh_batch = 3"
  "zIndex fresh_batch = 0"
  "diagnostics fresh_batch = []"
  "data fresh_batch = Some (replicate 10000000 0)"
  "gl_buffers fresh_batch 1 = Some (replicate 280000000 0)"
  using init_vertex_buffer [of 28 16 "(1, 2, 3)" "(0, 0)" "[]" "zero_initialized :: nat process"]
  by (simp_all add: fresh_batch_def init_members init_data kMaxBatchSize_def zero_initialized_def)

lemma fresh_batch_ready:
  "ready fresh_batch" and "vbo_allocated fresh_batch"
  unfolding fresh_batch_def by (rule init_ready; simp add: kMaxBatchSize_def)+

subsection \<open>What the single-vertex and the bulk call do\<close>

lemma AddVertex_stored:
  assumes "data s = Some mem" and "m_vertex_count s \<le> kMaxBatchSize"
    and "unat (m_vertex_count s) < length mem"
  shows "AddVertex v s =
    Inr (s\<lparr>data := Some (mem[unat (m_vertex_count s) := v]),
           m_vertex_count := m_vertex_count s + 1\<rparr>)"
  using assms by (simp add: AddVertex_def hasRoom_def)

lemma AddVertex_rejected:
  assumes "kMaxBatchSize < m_vertex_count s"
  shows "AddVertex v s =
    Inr (AmoLogger_Error ''Batch ran out of room. I have %d/%d vertices.\<newline>''
           [m_vertex_count s, kMaxBatchSize]
           (if data s = None then AmoLogger_Error ''Invalid batch.\<newline>'' [] s else s))"
  using assms by (simp add: AddVertex_def hasRoom_def AmoLogger_Error_def Let_def not_le)

lemma AddVertex_bulk_rejected:
  assumes "kMaxBatchSize < m_vertex_count s"
  shows "AddVertex_bulk repr vs n s =
    Inr (AmoLogger_Error ''Batch ran out of room. I have %d/%d vertices.\<newline>''
           [m_vertex_count s, kMaxBatchSize]
           (if data s = None then AmoLogger_Error ''Invalid batch.\<newline>'' [] s else s))"
  using assms by (simp add: AddVertex_bulk_def hasRoom_def AmoLogger_Error_def Let_def not_le)

lemma AddVertex_successfulD:
  assumes "successful s (AddVertex v s)"
  shows "\<exists>mem. data s = Some mem \<and> m_vertex_count s \<le> kMaxBatchSize \<and>
           unat (m_vertex_count s) < length mem"
proof (cases "data s")
  case None
  with assms show ?thesis
    by (simp add: successful_def AddVertex_def hasRoom_def AmoLogger_Error_def Let_def
        split: if_splits)
next
  case (Some mem)
  with assms show ?thesis
    by (simp add: successful_def AddVertex_def hasRoom_def AmoLogger_Error_def Let_def
        split: if_splits)
qed

lemma unat_count_succ:
  assumes "c \<le> kMaxBatchSize"
  shows "unat (c + 1) = unat c + 1"
proof -
  from assms have "unat c \<le> 10000000"
    by (simp add: kMaxBatchSize_def word_le_nat_alt)
  then show ?thesis
    by (simp add: unat_word_ariths)
qed

lemma glNamedBufferSubData_sel:
  assumes "glNamedBufferSubData b off n src s = Inr s1"
  shows "data s1 = data s" "m_vertex_count s1 = m_vertex_count s" "m_data_size s1 = m_data_size s"
    "m_vertex_data_vbo s1 = m_vertex_data_vbo s" "m_draw_command_vbo s1 = m_draw_command_vbo s"
    "m_vao s1 = m_vao s" "zIndex s1 = zIndex s" "diagnostics s1 = diagnostics s"
    "gl_calls s1 = gl_calls s @ [GlNamedBufferSubData b off n]"
    "b' \<noteq> b \<Longrightarrow> gl_buffers s1 b' = gl_buffers s b'"
  using assms
  by (auto simp add: glNamedBufferSubData_def Let_def split: option.splits if_splits)

lemma glNamedBufferSubData_written:
  assumes "gl_buffers s b = Some store" and "off + n \<le> length store" and "n \<le> length src"
  shows "glNamedBufferSubData b off n src s =
    Inr (s\<lparr>gl_buffers := (gl_buffers s)(b \<mapsto> take off store @ take n src @ drop (off + n) store),
           gl_calls := gl_calls s @ [GlNamedBufferSubData b off n]\<rparr>)"
  using assms by (simp add: glNamedBufferSubData_def Let_def gl_issue_def)

lemma AddVertex_bulk_accepted:
  assumes "data s = Some mem" and "m_vertex_count s \<le> kMaxBatchSize"
  shows "AddVertex_bulk repr vs n s =
    (case glNamedBufferSubData (m_vertex_data_vbo s) (unat (m_vertex_count s) * sizeof_Vertex3D)
            (unat n * sizeof_Vertex3D) (bytes_of repr vs) s of
       Inl ub \<Rightarrow> Inl ub
     | Inr s1 \<Rightarrow> Inr (s1\<lparr>m_vertex_count := m_vertex_count s1 + n\<rparr>))"
  using assms by (simp add: AddVertex_bulk_def hasRoom_def)

lemma AddVertex_bulk_successfulD:
  assumes "successful s (AddVertex_bulk repr vs n s)"
  shows "data s \<noteq> None \<and> m_vertex_count s \<le> kMaxBatchSize"
proof (cases "data s")
  case None
  with assms show ?thesis
    by (auto simp add: successful_def AddVertex_bulk_def hasRoom_def AmoLogger_Error_def Let_def
        split: if_splits sum.splits dest: glNamedBufferSubData_sel(8))
next
  case (Some mem)
  with assms show ?thesis
    by (auto simp add: successful_def AddVertex_bulk_def hasRoom_def AmoLogger_Error_def Let_def
        split: if_splits sum.splits)
qed

lemma new_diagnostics_append [simp]:
  "new_diagnostics s (s'\<lparr>diagnostics := diagnostics s @ ds\<rparr>) = ds"
  by (simp add: new_diagnostics_def)

lemma AddVertex_diagnostics:
  assumes "AddVertex v s = Inr s'"
  shows "new_diagnostics s s' \<in>
    {[], [Logged_Error ''Batch ran out of room. I have %d/%d vertices.\<newline>''
            [m_vertex_count s, kMaxBatchSize]],
     [Logged_Error ''Invalid batch.\<newline>'' [],
      Logged_Error ''Batch ran out of room. I have %d/%d vertices.\<newline>''
            [m_vertex_count s, kMaxBatchSize]]}"
  using assms
  by (auto simp add: AddVertex_def hasRoom_def AmoLogger_Error_def Let_def new_diagnostics_def
      split: if_splits option.splits)

lemma AddVertex_bulk_diagnostics:
  assumes "AddVertex_bulk repr vs n s = Inr s'"
  shows "new_diagnostics s s' \<in>
    {[], [Logged_Error ''Invalid batch.\<newline>'' []],
     [Logged_Error ''Batch ran out of room. I have %d/%d vertices.\<newline>''
            [m_vertex_count s, kMaxBatchSize]],
     [Logged_Error ''Invalid batch.\<newline>'' [],
      Logged_Error ''Batch ran out of room. I have %d/%d vertices.\<newline>''
            [m_vertex_count s, kMaxBatchSize]]}"
  using assms
  by (auto simp add: AddVertex_bulk_def hasRoom_def AmoLogger_Error_def Let_def new_diagnostics_def
      split: if_splits sum.splits dest!: glNamedBufferSubData_sel(8))

lemma AddVertex_successful_eq:
  assumes "successful s (AddVertex v s)"
  shows "\<exists>mem. data s = Some mem \<and> m_vertex_count s \<le> kMaxBatchSize \<and>
           unat (m_vertex_count s) < length mem \<and>
           AddVertex v s =
             Inr (s\<lparr>data := Some (mem[unat (m_vertex_count s) := v]),
                    m_vertex_count := m_vertex_count s + 1\<rparr>)"
  using AddVertex_successfulD [OF assms] by (auto simp add: AddVertex_stored)

lemma AddVertex_frame:
  assumes "AddVertex v s = Inr s'"
  shows "gl_buffers s' = gl_buffers s" and "gl_calls s' = gl_calls s"
  using assms
  by (auto simp add: AddVertex_def hasRoom_def AmoLogger_Error_def Let_def
      split: if_splits option.splits)

lemma AddVertex_bulk_frame:
  assumes "AddVertex_bulk repr vs n s = Inr s'"
  shows "data s' = data s"
    and "b \<noteq> m_vertex_data_vbo s \<Longrightarrow> gl_buffers s' b = gl_buffers s b"
  using assms
  by (auto simp add: AddVertex_bulk_def hasRoom_def AmoLogger_Error_def Let_def
      split: if_splits sum.splits
      dest: glNamedBufferSubData_sel(1) glNamedBufferSubData_sel(10))

lemma AddVertex_bulk_uploaded:
  assumes ok: "successful s (AddVertex_bulk repr vs n s)"
    and store: "gl_buffers s (m_vertex_data_vbo s) = Some store"
    and fits: "(unat (m_vertex_count s) + unat n) * sizeof_Vertex3D \<le> length store"
  shows "AddVertex_bulk repr vs n s =
    Inr (s\<lparr>gl_buffers := (gl_buffers s)(m_vertex_data_vbo s \<mapsto>
             take (unat (m_vertex_count s) * sizeof_Vertex3D) store @
             take (unat n * sizeof_Vertex3D) (bytes_of repr vs) @
             drop (unat (m_vertex_count s) * sizeof_Vertex3D + unat n * sizeof_Vertex3D) store),
           gl_calls := gl_calls s @
             [GlNamedBufferSubData (m_vertex_data_vbo s)
                (unat (m_vertex_count s) * sizeof_Vertex3D) (unat n * sizeof_Vertex3D)],
           m_vertex_count := m_vertex_count s + n\<rparr>)"
proof -
  from AddVertex_bulk_successfulD [OF ok]
  obtain mem where mem: "data s = Some mem" and room: "m_vertex_count s \<le> kMaxBatchSize"
    by auto
  note eq = AddVertex_bulk_accepted [OF mem room, of repr vs n]
  from fits have le: "unat (m_vertex_count s) * sizeof_Vertex3D + unat n * sizeof_Vertex3D
      \<le> length store"
    by (simp add: add_mult_distrib)
  have "unat n * sizeof_Vertex3D \<le> length (bytes_of repr vs)"
  proof (rule ccontr)
    assume "\<not> ?thesis"
    with store le have "glNamedBufferSubData (m_vertex_data_vbo s)
        (unat (m_vertex_count s) * sizeof_Vertex3D) (unat n * sizeof_Vertex3D)
        (bytes_of repr vs) s = Inl Out_of_bounds_read"
      by (simp add: glNamedBufferSubData_def Let_def)
    with eq ok show False
      by (simp add: successful_def)
  qed
  from glNamedBufferSubData_written [OF store le this] eq show ?thesis
    by simp
qed

lemma upload_within_32_bits:
  assumes alloc: "vbo_allocated s" and fits: "upload_fits n s"
  shows "unat (m_vertex_count s) + unat n < 2 ^ 32"
proof -
  from alloc obtain store where store: "gl_buffers s (m_vertex_data_vbo s) = Some store"
    and len: "length store = unat (m_data_size s)"
    by (auto simp add: vbo_allocated_def split: option.splits)
  have "unat (m_data_size s) < 2 ^ 32"
    using unsigned_less [of "m_data_size s"] by simp
  moreover from fits store len
  have "(unat (m_vertex_count s) + unat n) * 28 \<le> unat (m_data_size s)"
    by (simp add: upload_fits_def sizeof_Vertex3D_def)
  ultimately show ?thesis
    by simp
qed

lemma fresh_batch_AddVertex:
  "AddVertex v fresh_batch =
     Inr (fresh_batch\<lparr>data := Some ((replicate 10000000 0)[0 := v]), m_vertex_count := 1\<rparr>)"
  using AddVertex_stored [of fresh_batch "replicate 10000000 0" v]
  by (simp add: fresh_batch_members kMaxBatchSize_def)

lemma bytes_of_repr28 [simp]: "length (bytes_of repr28 vs) = 28 * length vs"
  by (induction vs) (simp_all add: bytes_of_def repr28_def)

lemma fresh_batch_AddVertex_bulk:
  "AddVertex_bulk repr28 [7, 8] 2 (fresh_batch\<lparr>m_vertex_count := 1\<rparr>) =
     Inr (fresh_batch\<lparr>
       gl_buffers := (gl_buffers fresh_batch)(1 \<mapsto>
         take 28 (replicate 280000000 0) @ bytes_of repr28 [7, 8] @
         drop 84 (replicate 280000000 0)),
       gl_calls := gl_calls fresh_batch @ [GlNamedBufferSubData 1 28 56],
       m_vertex_count := 3\<rparr>)"
  by (simp add: AddVertex_bulk_def hasRoom_def kMaxBatchSize_def fresh_batch_members
      glNamedBufferSubData_def Let_def gl_issue_def sizeof_Vertex3D_def)

lemma length_bytes_of:
  assumes "\<forall>v. length (repr v) = szT"
  shows "length (bytes_of repr mem) = length mem * szT"
  using assms by (induction mem) (simp_all add: bytes_of_def)

lemma take_bytes_of:
  assumes "\<forall>v. length (repr v) = szT"
  shows "take (k * szT) (bytes_of repr mem) = bytes_of repr (take k mem)"
proof (induction mem arbitrary: k)
  case Nil
  then show ?case by (simp add: bytes_of_def)
next
  case (Cons v mem)
  show ?case
  proof (cases k)
    case 0
    then show ?thesis by (simp add: bytes_of_def)
  next
    case (Suc j)
    from Cons [of j] assms show ?thesis
      by (simp add: Suc bytes_of_def)
  qed
qed

lemma AddVertex_each_slots_from:
  assumes "each_successful vs s"
  shows "\<exists>s'. AddVertex_each vs s = Inr s' \<and>
           unat (m_vertex_count s') = unat (m_vertex_count s) + length vs \<and>
           (\<forall>i<length vs. slot s' (unat (m_vertex_count s) + i) = Some (vs ! i)) \<and>
           (\<forall>j<unat (m_vertex_count s). slot s' j = slot s j)"
  using assms
proof (induction vs arbitrary: s)
  case Nil
  then show ?case by simp
next
  case (Cons v vs)
  let ?c = "unat (m_vertex_count s)"
  from Cons.prems have ok: "successful s (AddVertex v s)"
    by simp
  from AddVertex_successful_eq [OF ok]
  obtain mem where mem: "data s = Some mem" and room: "m_vertex_count s \<le> kMaxBatchSize"
    and inside: "?c < length mem"
    and step: "AddVertex v s =
      Inr (s\<lparr>data := Some (mem[?c := v]), m_vertex_count := m_vertex_count s + 1\<rparr>)"
    by blast
  let ?s1 = "s\<lparr>data := Some (mem[?c := v]), m_vertex_count := m_vertex_count s + 1\<rparr>"
  have c1: "unat (m_vertex_count ?s1) = Suc ?c"
    using unat_count_succ [OF room] by simp
  from Cons.prems step have "each_successful vs ?s1"
    by simp
  from Cons.IH [OF this] c1
  obtain s' where run: "AddVertex_each vs ?s1 = Inr s'"
    and count: "unat (m_vertex_count s') = Suc ?c + length vs"
    and new: "\<forall>i<length vs. slot s' (Suc ?c + i) = Some (vs ! i)"
    and old: "\<forall>j<Suc ?c. slot s' j = slot ?s1 j"
    by auto
  have here: "slot s' ?c = Some v"
    using old inside by (simp add: slot_def)
  have "slot s' (?c + i) = Some ((v # vs) ! i)" if "i < length (v # vs)" for i
  proof (cases i)
    case 0
    with here show ?thesis by simp
  next
    case (Suc k)
    with that new show ?thesis by simp
  qed
  moreover have "slot s' j = slot s j" if "j < ?c" for j
  proof -
    from that old have "slot s' j = slot ?s1 j"
      by simp
    also from that mem have "\<dots> = slot s j"
      by (simp add: slot_def)
    finally show ?thesis .
  qed
  ultimately show ?case
    using run step count by simp
qed

lemma each_successful_if_room:
  assumes "data s = Some mem"
    and "unat (m_vertex_count s) + length vs \<le> length mem"
    and "unat (m_vertex_count s) + length vs \<le> unat kMaxBatchSize"
  shows "each_successful vs s"
  using assms
proof (induction vs arbitrary: s mem)
  case Nil
  then show ?case by simp
next
  case (Cons v vs)
  let ?c = "unat (m_vertex_count s)"
  from Cons.prems have room: "m_vertex_count s \<le> kMaxBatchSize" and inside: "?c < length mem"
    by (simp_all add: word_le_nat_alt)
  note step = AddVertex_stored [OF Cons.prems(1) room inside, of v]
  let ?s1 = "s\<lparr>data := Some (mem[?c := v]), m_vertex_count := m_vertex_count s + 1\<rparr>"
  have c1: "unat (m_vertex_count ?s1) = Suc ?c"
    using unat_count_succ [OF room] by simp
  have "each_successful vs ?s1"
  proof (rule Cons.IH)
    show "data ?s1 = Some (mem[?c := v])"
      by simp
    from Cons.prems c1 show "unat (m_vertex_count ?s1) + length vs \<le> length (mem[?c := v])"
      by simp
    from Cons.prems c1 show "unat (m_vertex_count ?s1) + length vs \<le> unat kMaxBatchSize"
      by simp
  qed
  with step show ?case
    by (simp add: successful_def)
qed

subsection \<open>What \<^verbatim>\<open>ReloadData\<close> relies on is kept by every method\<close>

lemma reload_ready_init:
  assumes "0 < szT" and "szT * unat kMaxBatchSize < 2 ^ 32" and "\<forall>v. length (repr v) = szT"
  shows "reload_ready repr (init szT r names fresh as s)"
proof -
  let ?s = "init szT r names fresh as s"
  from init_ready [OF assms(1,2), of r names fresh as s]
  have ready: "ready ?s" and vbo: "vbo_allocated ?s"
    by simp_all
  from assms(2) have size: "unat (m_data_size ?s) = szT * unat kMaxBatchSize"
    unfolding init_members unat_of_nat by simp
  from ready size have "length (staging_bytes repr ?s) = unat (m_data_size ?s)"
    by (auto simp add: ready_def staging_bytes_def length_bytes_of [OF assms(3)]
        split: option.splits)
  with vbo show ?thesis
    by (auto simp add: reload_ready_def vbo_allocated_def split: option.splits)
qed

lemma reload_ready_cong:
  assumes "length (staging_bytes repr s') = length (staging_bytes repr s)"
    and "m_data_size s' = m_data_size s"
    and "m_vertex_data_vbo s' = m_vertex_data_vbo s"
    and "\<exists>store store'. gl_buffers s (m_vertex_data_vbo s) = Some store \<and>
           gl_buffers s' (m_vertex_data_vbo s) = Some store' \<and> length store' = length store"
    and "reload_ready repr s"
  shows "reload_ready repr s'"
  using assms by (auto simp add: reload_ready_def)

lemma reload_ready_store:
  assumes "reload_ready repr s"
  shows "\<exists>store. gl_buffers s (m_vertex_data_vbo s) = Some store"
  using assms by (auto simp add: reload_ready_def split: option.splits)

lemma AmoLogger_Error_sel [simp]:
  "data (AmoLogger_Error fmt args s) = data s"
  "m_vertex_count (AmoLogger_Error fmt args s) = m_vertex_count s"
  "m_data_size (AmoLogger_Error fmt args s) = m_data_size s"
  "m_vertex_data_vbo (AmoLogger_Error fmt args s) = m_vertex_data_vbo s"
  "gl_buffers (AmoLogger_Error fmt args s) = gl_buffers s"
  "gl_calls (AmoLogger_Error fmt args s) = gl_calls s"
  by (simp_all add: AmoLogger_Error_def)

lemma AddVertex_members:
  assumes "AddVertex v s = Inr s'"
  shows "m_data_size s' = m_data_size s" and "m_vertex_data_vbo s' = m_vertex_data_vbo s"
    and "(\<forall>v. length (repr v) = szT) \<Longrightarrow>
           length (staging_bytes repr s') = length (staging_bytes repr s)"
  using assms
  by (auto simp add: AddVertex_def hasRoom_def Let_def staging_bytes_def
      length_bytes_of [of repr szT] split: if_splits option.splits)

lemma reload_ready_AddVertex:
  assumes repr: "\<forall>v. length (repr v) = szT" and inv: "reload_ready repr s"
    and step: "AddVertex v s = Inr s'"
  shows "reload_ready repr s'"
  using AddVertex_members(3) [OF step repr] AddVertex_members(1,2) [OF step]
    reload_ready_store [OF inv] AddVertex_frame(1) [OF step] inv
  by (intro reload_ready_cong [of repr s' s]) auto

lemma glNamedBufferSubData_store_length:
  assumes "glNamedBufferSubData b off n src s = Inr s1" and "gl_buffers s b' = Some store"
  shows "\<exists>store'. gl_buffers s1 b' = Some store' \<and> length store' = length store"
  using assms
  by (auto simp add: glNamedBufferSubData_def Let_def split: if_splits option.splits)

lemma reload_ready_upload:
  assumes inv: "reload_ready repr s"
    and step: "glNamedBufferSubData b off n src s = Inr s1"
  shows "reload_ready repr s1"
proof -
  from reload_ready_store [OF inv]
  obtain store where store: "gl_buffers s (m_vertex_data_vbo s) = Some store"
    by blast
  from glNamedBufferSubData_store_length [OF step store] store
    glNamedBufferSubData_sel(1,3,4) [OF step] inv
  show ?thesis
    by (intro reload_ready_cong [of repr s1 s]) (auto simp add: staging_bytes_def)
qed

lemma reload_ready_AmoLogger_Error [simp]:
  "reload_ready repr (AmoLogger_Error fmt args s) = reload_ready repr s"
  by (simp add: reload_ready_def staging_bytes_def cong: option.case_cong)

lemma reload_ready_count [simp]:
  "reload_ready repr (s\<lparr>m_vertex_count := c\<rparr>) = reload_ready repr s"
  by (simp add: reload_ready_def staging_bytes_def cong: option.case_cong)

lemma reload_ready_AddVertex_bulk:
  assumes inv: "reload_ready repr s" and step: "AddVertex_bulk repr vs n s = Inr s'"
  shows "reload_ready repr s'"
proof -
  let ?s = "if data s = None then AmoLogger_Error ''Invalid batch.\<newline>'' [] s else s"
  from inv have inv': "reload_ready repr ?s"
    by simp
  show ?thesis
  proof (cases "hasRoom ?s")
    case False
    with step have "s' = AmoLogger_Error ''Batch ran out of room. I have %d/%d vertices.\<newline>''
        [m_vertex_count ?s, kMaxBatchSize] ?s"
      by (simp add: AddVertex_bulk_def Let_def)
    with inv' show ?thesis
      by (simp only: reload_ready_AmoLogger_Error)
  next
    case True
    with step obtain s1 where up: "glNamedBufferSubData (m_vertex_data_vbo ?s)
        (unat (m_vertex_count ?s) * sizeof_Vertex3D) (unat n * sizeof_Vertex3D)
        (bytes_of repr vs) ?s = Inr s1"
      and s': "s' = s1\<lparr>m_vertex_count := m_vertex_count s1 + n\<rparr>"
      by (auto simp add: AddVertex_bulk_def Let_def split: sum.splits)
    from reload_ready_upload [OF inv' up] show ?thesis
      by (simp only: s' reload_ready_count)
  qed
qed

lemma reload_ready_ReloadData:
  assumes "reload_ready repr s" and "ReloadData repr s = Inr s'"
  shows "reload_ready repr s'"
  using assms unfolding ReloadData_def by (rule reload_ready_upload)

lemma reload_ready_gl_issue [simp]:
  "reload_ready repr (gl_issue c s) = reload_ready repr s"
  by (simp add: reload_ready_def staging_bytes_def cong: option.case_cong)

lemma reload_ready_std_cerr [simp]:
  "reload_ready repr (std_cerr txt s) = reload_ready repr s"
  by (simp add: reload_ready_def staging_bytes_def std_cerr_def cong: option.case_cong)

lemma reload_ready_Draw: "reload_ready repr s \<Longrightarrow> reload_ready repr (Draw s)"
  by (simp add: Draw_def Let_def Clear_def glBindVertexArray_def glDrawArrays_def)

lemma reload_ready_Clear: "reload_ready repr s \<Longrightarrow> reload_ready repr (Clear s)"
  by (simp add: Clear_def)

lemma reload_ready_Free: "reload_ready repr s \<Longrightarrow> reload_ready repr (Free s)"
  by (auto simp add: Free_def reload_ready_def staging_bytes_def split: option.splits)

lemma reload_ready_call:
  assumes "\<forall>v. length (repr v) = szT" and "reload_ready repr s" and "call repr c s = Inr s'"
  shows "reload_ready repr s'"
  using assms
  by (cases c)
    (auto intro: reload_ready_AddVertex reload_ready_AddVertex_bulk reload_ready_ReloadData
      reload_ready_Draw reload_ready_Clear reload_ready_Free)

lemma reload_ready_calls:
  assumes "\<forall>v. length (repr v) = szT" and "reload_ready repr s" and "calls repr cs s = Inr s'"
  shows "reload_ready repr s'"
  using assms(2,3)
proof (induction cs arbitrary: s)
  case Nil
  then show ?case by simp
next
  case (Cons c cs)
  from Cons.prems(2) obtain s1 where step: "call repr c s = Inr s1"
    and rest: "calls repr cs s1 = Inr s'"
    by (auto split: sum.splits)
  from reload_ready_call [OF assms(1) Cons.prems(1) step] rest show ?case
    by (rule Cons.IH)
qed

text \<open>Every state the methods reach from an initialized batch has what \<^verbatim>\<open>ReloadData\<close> relies
  on (for a vertex type of \<open>szT\<close> bytes whose \<open>kMaxBatchSize\<close> records fit \<open>m_data_size\<close>).\<close>

lemma reload_ready_reachable:
  assumes "0 < szT" and "szT * unat kMaxBatchSize < 2 ^ 32" and "\<forall>v. length (repr v) = szT"
    and "calls repr cs (init szT r names fresh as s0) = Inr s"
  shows "reload_ready repr s"
  using assms(3) reload_ready_init [OF assms(1-3)] assms(4) by (rule reload_ready_calls)

subsection \<open>Where a call gets past its checks\<close>

text \<open>At \<open>m_vertex_count = kMaxBatchSize\<close> the check \<^verbatim>\<open>m_vertex_count <= kMaxBatchSize\<close> of
  \<^verbatim>\<open>hasRoom\<close> still lets the single-vertex call through, and the store goes one record past
  the \<open>kMaxBatchSize\<close> slots of the staging allocation.\<close>

lemma AddVertex_at_capacity:
  assumes "ready s" and "m_vertex_count s = kMaxBatchSize"
  shows "AddVertex v s = Inl Out_of_bounds_write"
  using assms
  by (auto simp add: ready_def AddVertex_def hasRoom_def split: option.splits)

text \<open>That count is reached by the calls themselves: after \<open>kMaxBatchSize\<close> single-vertex
  calls on a freshly initialized batch, all of them successful, one more call is still let
  through and stores past the allocation.\<close>

lemma AddVertex_each_ready:
  assumes "each_successful vs s" and "ready s"
  shows "\<exists>s'. AddVertex_each vs s = Inr s' \<and> ready s'"
  using assms
proof (induction vs arbitrary: s)
  case Nil
  then show ?case by simp
next
  case (Cons v vs)
  from Cons.prems(1) have ok: "successful s (AddVertex v s)"
    by simp
  from AddVertex_successful_eq [OF ok]
  obtain mem where mem: "data s = Some mem"
    and step: "AddVertex v s =
      Inr (s\<lparr>data := Some (mem[unat (m_vertex_count s) := v]),
             m_vertex_count := m_vertex_count s + 1\<rparr>)"
    by blast
  let ?s1 = "s\<lparr>data := Some (mem[unat (m_vertex_count s) := v]),
               m_vertex_count := m_vertex_count s + 1\<rparr>"
  from Cons.prems(2) mem have "ready ?s1"
    by (simp add: ready_def)
  moreover from Cons.prems(1) step have "each_successful vs ?s1"
    by simp
  ultimately have "\<exists>s'. AddVertex_each vs ?s1 = Inr s' \<and> ready s'"
    by (rule Cons.IH [rotated])
  with step show ?case
    by simp
qed

lemma full_batch_takes_one_more:
  assumes "ready s" and "m_vertex_count s = 0" and "length vs = unat kMaxBatchSize"
  shows "\<exists>s'. AddVertex_each vs s = Inr s' \<and> m_vertex_count s' = kMaxBatchSize \<and>
           AddVertex v s' = Inl Out_of_bounds_write"
proof -
  from assms(1) obtain mem where mem: "data s = Some mem" and len: "length mem = unat kMaxBatchSize"
    by (auto simp add: ready_def split: option.splits)
  have ok: "each_successful vs s"
    by (rule each_successful_if_room [OF mem]) (simp_all add: assms len)
  from AddVertex_each_ready [OF ok assms(1)]
  obtain s' where run: "AddVertex_each vs s = Inr s'" and ready: "ready s'"
    by blast
  from AddVertex_each_slots_from [OF ok] run assms(2,3)
  have "unat (m_vertex_count s') = unat kMaxBatchSize"
    by simp
  then have full: "m_vertex_count s' = kMaxBatchSize"
    by (simp only: word_unat_eq_iff)
  from run full AddVertex_at_capacity [OF ready full, of v] show ?thesis
    by blast
qed

text \<open>With \<open>data\<close> null and a count that passes \<^verbatim>\<open>hasRoom\<close>, neither overload stops at the
  null check: the single-vertex call stores through the null pointer, the bulk call goes
  on to the upload and the addition.\<close>

lemma AddVertex_null_data:
  assumes "data s = None" and "m_vertex_count s \<le> kMaxBatchSize"
  shows "AddVertex v s = Inl Null_pointer_write"
  using assms by (simp add: AddVertex_def hasRoom_def AmoLogger_Error_def Let_def)

lemma AddVertex_bulk_null_data:
  assumes "data s = None" and "m_vertex_count s \<le> kMaxBatchSize"
    and "AddVertex_bulk repr vs n s = Inr s'"
  shows "m_vertex_count s' = m_vertex_count s + n"
    and "new_diagnostics s s' = [Logged_Error ''Invalid batch.\<newline>'' []]"
  using assms
  by (auto simp add: AddVertex_bulk_def hasRoom_def AmoLogger_Error_def Let_def
      new_diagnostics_def split: sum.splits
      dest: glNamedBufferSubData_sel(2) glNamedBufferSubData_sel(8))

section \<open>The properties\<close>

text \<open>
  C8. \<^verbatim>\<open>Draw()\<close> on a batch with \<open>m_vertex_count = 0\<close> writes the line
  "No vertices to draw." to \<^verbatim>\<open>std::cerr\<close> and returns: the resulting state is the state
  before with that one diagnostic added. No OpenGL call is issued, and the count, the
  staging allocation and the data stores of the OpenGL buffers are as before.
\<close>

theorem Draw_empty:
  assumes "m_vertex_count s = 0"
  shows "Draw s = s\<lparr>diagnostics := diagnostics s @ [Cerr ''No vertices to draw.\<newline>'']\<rparr> \<and>
         gl_calls (Draw s) = gl_calls s \<and> gl_buffers (Draw s) = gl_buffers s \<and>
         data (Draw s) = data s \<and> m_vertex_count (Draw s) = m_vertex_count s"
  using assms by (simp add: Draw_def std_cerr_def)

theorem Draw_empty_witness:
  "m_vertex_count fresh_batch = 0 \<and>
   Draw fresh_batch = fresh_batch\<lparr>diagnostics := [Cerr ''No vertices to draw.\<newline>'']\<rparr> \<and>
   gl_calls (Draw fresh_batch) = gl_calls fresh_batch \<and>
   gl_buffers (Draw fresh_batch) 1 = Some (replicate 280000000 0) \<and>
   data (Draw fresh_batch) = Some (replicate 10000000 0)"
  using Draw_empty [of fresh_batch] by (simp add: fresh_batch_members)

text \<open>
  C4. \<^verbatim>\<open>Draw()\<close> on a batch with \<open>m_vertex_count > 0\<close> binds the vertex array of the batch,
  issues \<^verbatim>\<open>glDrawArrays(GL_TRIANGLES, 0, m_vertex_count)\<close>, unbinds, and sets the count to
  zero, whatever it was. Nothing else changes: the staging allocation and the data stores
  of the OpenGL buffers are as before.
\<close>

theorem Draw_nonempty:
  assumes "0 < m_vertex_count s"
  shows "Draw s =
           s\<lparr>gl_calls := gl_calls s @
                [GlBindVertexArray (m_vao s),
                 GlDrawArrays GL_TRIANGLES 0 (m_vertex_count s),
                 GlBindVertexArray 0],
             m_vertex_count := 0\<rparr> \<and>
         m_vertex_count (Draw s) = 0 \<and> data (Draw s) = data s \<and>
         gl_buffers (Draw s) = gl_buffers s \<and> diagnostics (Draw s) = diagnostics s"
proof -
  from assms have "\<not> m_vertex_count s \<le> 0"
    by simp
  then show ?thesis
    by (simp add: Draw_def Let_def Clear_def glBindVertexArray_def glDrawArrays_def gl_issue_def)
qed

theorem Draw_nonempty_witness:
  "0 < m_vertex_count (fresh_batch\<lparr>m_vertex_count := 3\<rparr>) \<and>
   gl_calls (Draw (fresh_batch\<lparr>m_vertex_count := 3\<rparr>)) =
     gl_calls fresh_batch @
       [GlBindVertexArray 3, GlDrawArrays GL_TRIANGLES 0 3, GlBindVertexArray 0] \<and>
   m_vertex_count (Draw (fresh_batch\<lparr>m_vertex_count := 3\<rparr>)) = 0 \<and>
   data (Draw (fresh_batch\<lparr>m_vertex_count := 3\<rparr>)) = Some (replicate 10000000 0)"
  using Draw_nonempty [of "fresh_batch\<lparr>m_vertex_count := 3\<rparr>"]
  by (simp add: fresh_batch_members)

text \<open>
  C9. \<^verbatim>\<open>Free()\<close> on a batch whose \<open>data\<close> is not null ends the staging allocation, sets
  \<open>data\<close> to null and \<open>m_data_size\<close> to zero and changes nothing else: the count, the sort
  key, the three OpenGL handles and the OpenGL buffers are as before. On a batch whose
  \<open>data\<close> is null it changes nothing, so a second \<^verbatim>\<open>Free()\<close> is a no-op.
\<close>

theorem Free_releases_staging_only:
  "(data s \<noteq> None \<longrightarrow> Free s = s\<lparr>data := None, m_data_size := 0\<rparr>) \<and>
   (data s = None \<longrightarrow> Free s = s) \<and>
   Free (Free s) = Free s \<and>
   data (Free s) = None \<and>
   m_vertex_count (Free s) = m_vertex_count s \<and> zIndex (Free s) = zIndex s \<and>
   m_vao (Free s) = m_vao s \<and> m_vertex_data_vbo (Free s) = m_vertex_data_vbo s \<and>
   m_draw_command_vbo (Free s) = m_draw_command_vbo s \<and>
   gl_buffers (Free s) = gl_buffers s \<and> gl_calls (Free s) = gl_calls s"
  by (simp add: Free_def)

theorem Free_releases_staging_only_witness:
  "data fresh_batch \<noteq> None \<and>
   Free fresh_batch = fresh_batch\<lparr>data := None, m_data_size := 0\<rparr> \<and>
   data (Free fresh_batch) = None \<and>
   Free (Free fresh_batch) = Free fresh_batch \<and>
   m_vertex_data_vbo (Free fresh_batch) = 1 \<and>
   gl_buffers (Free fresh_batch) 1 = Some (replicate 280000000 0)"
  using Free_releases_staging_only [of fresh_batch]
    Free_releases_staging_only [of "Free fresh_batch"]
  by (simp add: fresh_batch_members)

text \<open>
  C10. In both overloads of \<^verbatim>\<open>AddVertex\<close> the comparison \<^verbatim>\<open>m_vertex_count < 0\<close> is false in
  every state, since \<open>m_vertex_count\<close> is an unsigned 32-bit integer; so no call, whatever
  the state and the arguments, returns through the branch it guards: the diagnostics of a
  call never contain "Invalid vertex number.".
\<close>

theorem negative_count_branch_unreachable:
  "\<not> m_vertex_count s < 0 \<and>
   (\<forall>s'. AddVertex v s = Inr s' \<longrightarrow>
      Logged_Error ''Invalid vertex number.\<newline>'' [] \<notin> set (new_diagnostics s s')) \<and>
   (\<forall>s'. AddVertex_bulk repr vs n s = Inr s' \<longrightarrow>
      Logged_Error ''Invalid vertex number.\<newline>'' [] \<notin> set (new_diagnostics s s'))"
proof (intro conjI allI impI)
  show "\<not> m_vertex_count s < 0"
    by simp
next
  fix s'
  assume "AddVertex v s = Inr s'"
  from AddVertex_diagnostics [OF this]
  show "Logged_Error ''Invalid vertex number.\<newline>'' [] \<notin> set (new_diagnostics s s')"
    by auto
next
  fix s'
  assume "AddVertex_bulk repr vs n s = Inr s'"
  from AddVertex_bulk_diagnostics [OF this]
  show "Logged_Error ''Invalid vertex number.\<newline>'' [] \<notin> set (new_diagnostics s s')"
    by auto
qed

theorem negative_count_branch_unreachable_witness:
  "(\<exists>s'. AddVertex 7 (fresh_batch\<lparr>m_vertex_count := 10000001\<rparr>) = Inr s' \<and>
      new_diagnostics (fresh_batch\<lparr>m_vertex_count := 10000001\<rparr>) s' =
        [Logged_Error ''Batch ran out of room. I have %d/%d vertices.\<newline>'' [10000001, 10000000]] \<and>
      Logged_Error ''Invalid vertex number.\<newline>'' []
        \<notin> set (new_diagnostics (fresh_batch\<lparr>m_vertex_count := 10000001\<rparr>) s')) \<and>
   (\<exists>s'. AddVertex_bulk repr28 [7] 1 (fresh_batch\<lparr>m_vertex_count := 10000001\<rparr>) = Inr s' \<and>
      Logged_Error ''Invalid vertex number.\<newline>'' []
        \<notin> set (new_diagnostics (fresh_batch\<lparr>m_vertex_count := 10000001\<rparr>) s'))"
proof -
  let ?s = "fresh_batch\<lparr>m_vertex_count := 10000001\<rparr>"
  have full: "kMaxBatchSize < m_vertex_count ?s"
    by (simp add: kMaxBatchSize_def)
  have single: "AddVertex 7 ?s =
    Inr (?s\<lparr>diagnostics := diagnostics ?s @
      [Logged_Error ''Batch ran out of room. I have %d/%d vertices.\<newline>'' [10000001, 10000000]]\<rparr>)"
    by (simp add: AddVertex_rejected [OF full] AmoLogger_Error_def fresh_batch_members
        kMaxBatchSize_def)
  have bulk: "AddVertex_bulk repr28 [7] 1 ?s =
    Inr (?s\<lparr>diagnostics := diagnostics ?s @
      [Logged_Error ''Batch ran out of room. I have %d/%d vertices.\<newline>'' [10000001, 10000000]]\<rparr>)"
    by (simp add: AddVertex_bulk_rejected [OF full] AmoLogger_Error_def fresh_batch_members
        kMaxBatchSize_def)
  from negative_count_branch_unreachable [where s = ?s and v = 7 and repr = repr28
      and vs = "[7]" and n = 1]
  show ?thesis
    unfolding single bulk by (simp add: new_diagnostics_def fresh_batch_members)
qed

text \<open>
  C2. The code at a batch whose staging memory was never allocated, the zero-initialized
  batch: both overloads log "Invalid batch." and go on, because no \<^verbatim>\<open>return\<close> follows the
  null check. The single-vertex call then stores through the null pointer. The bulk call
  issues the upload and adds the amount to the count.
\<close>

theorem AddVertex_on_null_data:
  "AddVertex 7 (zero_initialized :: nat process) = Inl Null_pointer_write \<and>
   AddVertex_bulk repr28 [7] 1 zero_initialized =
     Inr (zero_initialized\<lparr>m_vertex_count := 1,
            gl_calls := [GlNamedBufferSubData 0 0 28],
            diagnostics := [Logged_Error ''Invalid batch.\<newline>'' []]\<rparr>)"
  by (simp add: AddVertex_def AddVertex_bulk_def hasRoom_def AmoLogger_Error_def Let_def
      zero_initialized_def kMaxBatchSize_def glNamedBufferSubData_def gl_issue_def
      sizeof_Vertex3D_def)




text \<open>
  C7. The two accumulate paths write different buffers. The single-vertex \<^verbatim>\<open>AddVertex\<close>
  issues no OpenGL call and leaves every OpenGL buffer as it was; when successful it
  changes the staging slot at the current count and the count, and nothing else. The bulk
  \<^verbatim>\<open>AddVertex\<close> leaves the staging allocation and every buffer other than the vertex
  buffer as they were; when successful with an upload that lies within the vertex buffer,
  it replaces \<open>amount * sizeof(Vertex3D)\<close> bytes of the vertex buffer from byte offset
  \<open>m_vertex_count * sizeof(Vertex3D)\<close> on by the caller's bytes, records the call,
  advances the count, and changes nothing else.
\<close>

theorem accumulate_paths_write_different_buffers:
  "(\<forall>s'. AddVertex v s = Inr s' \<longrightarrow> gl_buffers s' = gl_buffers s \<and> gl_calls s' = gl_calls s) \<and>
   (successful s (AddVertex v s) \<longrightarrow>
      (\<exists>mem. data s = Some mem \<and>
         AddVertex v s =
           Inr (s\<lparr>data := Some (mem[unat (m_vertex_count s) := v]),
                  m_vertex_count := m_vertex_count s + 1\<rparr>))) \<and>
   (\<forall>s'. AddVertex_bulk repr vs n s = Inr s' \<longrightarrow>
      data s' = data s \<and>
      (\<forall>b. b \<noteq> m_vertex_data_vbo s \<longrightarrow> gl_buffers s' b = gl_buffers s b)) \<and>
   (successful s (AddVertex_bulk repr vs n s) \<and> upload_fits n s \<longrightarrow>
      (\<exists>store. gl_buffers s (m_vertex_data_vbo s) = Some store \<and>
         AddVertex_bulk repr vs n s =
           Inr (s\<lparr>gl_buffers := (gl_buffers s)(m_vertex_data_vbo s \<mapsto>
                    take (unat (m_vertex_count s) * sizeof_Vertex3D) store @
                    take (unat n * sizeof_Vertex3D) (bytes_of repr vs) @
                    drop (unat (m_vertex_count s) * sizeof_Vertex3D + unat n * sizeof_Vertex3D)
                      store),
                  gl_calls := gl_calls s @
                    [GlNamedBufferSubData (m_vertex_data_vbo s)
                       (unat (m_vertex_count s) * sizeof_Vertex3D) (unat n * sizeof_Vertex3D)],
                  m_vertex_count := m_vertex_count s + n\<rparr>)))"
proof (intro conjI allI impI)
  fix s'
  assume "AddVertex v s = Inr s'"
  then show "gl_buffers s' = gl_buffers s" and "gl_calls s' = gl_calls s"
    by (rule AddVertex_frame)+
next
  assume "successful s (AddVertex v s)"
  from AddVertex_successful_eq [OF this]
  show "\<exists>mem. data s = Some mem \<and>
         AddVertex v s =
           Inr (s\<lparr>data := Some (mem[unat (m_vertex_count s) := v]),
                  m_vertex_count := m_vertex_count s + 1\<rparr>)"
    by blast
next
  fix s'
  assume "AddVertex_bulk repr vs n s = Inr s'"
  then show "data s' = data s"
    by (rule AddVertex_bulk_frame)
next
  fix s' b
  assume "AddVertex_bulk repr vs n s = Inr s'" and "b \<noteq> m_vertex_data_vbo s"
  then show "gl_buffers s' b = gl_buffers s b"
    by (rule AddVertex_bulk_frame)
next
  assume "successful s (AddVertex_bulk repr vs n s) \<and> upload_fits n s"
  then obtain store where ok: "successful s (AddVertex_bulk repr vs n s)"
    and store: "gl_buffers s (m_vertex_data_vbo s) = Some store"
    and fits: "(unat (m_vertex_count s) + unat n) * sizeof_Vertex3D \<le> length store"
    by (auto simp add: upload_fits_def split: option.splits)
  from store AddVertex_bulk_uploaded [OF ok store fits]
  show "\<exists>store. gl_buffers s (m_vertex_data_vbo s) = Some store \<and>
         AddVertex_bulk repr vs n s =
           Inr (s\<lparr>gl_buffers := (gl_buffers s)(m_vertex_data_vbo s \<mapsto>
                    take (unat (m_vertex_count s) * sizeof_Vertex3D) store @
                    take (unat n * sizeof_Vertex3D) (bytes_of repr vs) @
                    drop (unat (m_vertex_count s) * sizeof_Vertex3D + unat n * sizeof_Vertex3D)
                      store),
                  gl_calls := gl_calls s @
                    [GlNamedBufferSubData (m_vertex_data_vbo s)
                       (unat (m_vertex_count s) * sizeof_Vertex3D) (unat n * sizeof_Vertex3D)],
                  m_vertex_count := m_vertex_count s + n\<rparr>)"
    by blast
qed

theorem accumulate_paths_write_different_buffers_witness:
  "successful fresh_batch (AddVertex 7 fresh_batch) \<and>
   (\<exists>s'. AddVertex 7 fresh_batch = Inr s' \<and>
      data s' = Some ((replicate 10000000 0)[0 := 7]) \<and>
      gl_buffers s' = gl_buffers fresh_batch \<and> gl_calls s' = gl_calls fresh_batch) \<and>
   successful (fresh_batch\<lparr>m_vertex_count := 1\<rparr>)
     (AddVertex_bulk repr28 [7, 8] 2 (fresh_batch\<lparr>m_vertex_count := 1\<rparr>)) \<and>
   upload_fits 2 (fresh_batch\<lparr>m_vertex_count := 1\<rparr>) \<and>
   (\<exists>s'. AddVertex_bulk repr28 [7, 8] 2 (fresh_batch\<lparr>m_vertex_count := 1\<rparr>) = Inr s' \<and>
      data s' = Some (replicate 10000000 0) \<and>
      gl_buffers s' 2 = gl_buffers fresh_batch 2 \<and>
      gl_buffers s' 1 =
        Some (take 28 (replicate 280000000 0) @ bytes_of repr28 [7, 8] @
              drop 84 (replicate 280000000 0)))"
proof -
  let ?s = "fresh_batch\<lparr>m_vertex_count := 1\<rparr>"
  have a: "successful fresh_batch (AddVertex 7 fresh_batch)"
    by (simp add: fresh_batch_AddVertex successful_def)
  have b: "successful ?s (AddVertex_bulk repr28 [7, 8] 2 ?s)"
    by (simp add: fresh_batch_AddVertex_bulk successful_def)
  have c: "upload_fits 2 ?s"
    by (simp add: upload_fits_def fresh_batch_members sizeof_Vertex3D_def)
  note single = accumulate_paths_write_different_buffers [of 7 fresh_batch repr28 "[7, 8]" 2]
  note bulk = accumulate_paths_write_different_buffers [of 7 ?s repr28 "[7, 8]" 2]
  from single a obtain mem where "data fresh_batch = Some mem"
    and s1: "AddVertex 7 fresh_batch =
      Inr (fresh_batch\<lparr>data := Some (mem[unat (m_vertex_count fresh_batch) := 7]),
             m_vertex_count := m_vertex_count fresh_batch + 1\<rparr>)"
    by blast
  then have "\<exists>s'. AddVertex 7 fresh_batch = Inr s' \<and>
      data s' = Some ((replicate 10000000 0)[0 := 7]) \<and>
      gl_buffers s' = gl_buffers fresh_batch \<and> gl_calls s' = gl_calls fresh_batch"
    by (simp add: fresh_batch_members)
  moreover from bulk b c obtain store where "gl_buffers ?s (m_vertex_data_vbo ?s) = Some store"
    and "AddVertex_bulk repr28 [7, 8] 2 ?s =
      Inr (?s\<lparr>gl_buffers := (gl_buffers ?s)(m_vertex_data_vbo ?s \<mapsto>
              take (unat (m_vertex_count ?s) * sizeof_Vertex3D) store @
              take (unat (2 :: uint32) * sizeof_Vertex3D) (bytes_of repr28 [7, 8]) @
              drop (unat (m_vertex_count ?s) * sizeof_Vertex3D
                      + unat (2 :: uint32) * sizeof_Vertex3D) store),
             gl_calls := gl_calls ?s @
               [GlNamedBufferSubData (m_vertex_data_vbo ?s)
                  (unat (m_vertex_count ?s) * sizeof_Vertex3D)
                  (unat (2 :: uint32) * sizeof_Vertex3D)],
             m_vertex_count := m_vertex_count ?s + 2\<rparr>)"
    by blast
  then have "\<exists>s'. AddVertex_bulk repr28 [7, 8] 2 ?s = Inr s' \<and>
      data s' = Some (replicate 10000000 0) \<and>
      gl_buffers s' 2 = gl_buffers fresh_batch 2 \<and>
      gl_buffers s' 1 =
        Some (take 28 (replicate 280000000 0) @ bytes_of repr28 [7, 8] @
              drop 84 (replicate 280000000 0))"
    by (simp add: fresh_batch_members sizeof_Vertex3D_def)
  ultimately show ?thesis
    using a b c by blast
qed

text \<open>
  C6. On every state that has what \<^verbatim>\<open>ReloadData\<close> relies on (\<open>reload_ready\<close>: every state the
  methods reach from an initialized batch), \<^verbatim>\<open>ReloadData()\<close> issues one upload of
  \<open>m_data_size\<close> bytes to byte offset 0: afterwards the vertex buffer starts with the bytes
  of the whole staging region, not just of the used prefix, and nothing else has changed.
  Hence, where the staging allocation holds at least \<open>m_vertex_count\<close> records of
  \<open>sizeof(T)\<close> bytes each, the first \<open>m_vertex_count\<close> records of the vertex buffer are, byte
  for byte, the first \<open>m_vertex_count\<close> records of the staging allocation.
\<close>

theorem ReloadData_full_sync:
  assumes "reload_ready repr s"
  shows "\<exists>store. gl_buffers s (m_vertex_data_vbo s) = Some store \<and>
           ReloadData repr s =
             Inr (s\<lparr>gl_buffers := (gl_buffers s)(m_vertex_data_vbo s \<mapsto>
                      staging_bytes repr s @ drop (unat (m_data_size s)) store),
                    gl_calls := gl_calls s @
                      [GlNamedBufferSubData (m_vertex_data_vbo s) 0 (unat (m_data_size s))]\<rparr>) \<and>
           (\<forall>mem. data s = Some mem \<and> (\<forall>v. length (repr v) = szT) \<and>
                   unat (m_vertex_count s) \<le> length mem \<longrightarrow>
              take (unat (m_vertex_count s) * szT)
                (staging_bytes repr s @ drop (unat (m_data_size s)) store) =
              bytes_of repr (take (unat (m_vertex_count s)) mem))"
proof -
  from assms obtain store where region: "length (staging_bytes repr s) = unat (m_data_size s)"
    and store: "gl_buffers s (m_vertex_data_vbo s) = Some store"
    and room: "unat (m_data_size s) \<le> length store"
    by (auto simp add: reload_ready_def split: option.splits)
  from store room region
  have "glNamedBufferSubData (m_vertex_data_vbo s) 0 (unat (m_data_size s)) (staging_bytes repr s) s =
      Inr (s\<lparr>gl_buffers := (gl_buffers s)(m_vertex_data_vbo s \<mapsto>
               take 0 store @ take (unat (m_data_size s)) (staging_bytes repr s) @
               drop (0 + unat (m_data_size s)) store),
             gl_calls := gl_calls s @
               [GlNamedBufferSubData (m_vertex_data_vbo s) 0 (unat (m_data_size s))]\<rparr>)"
    by (intro glNamedBufferSubData_written) simp_all
  with region
  have upload: "ReloadData repr s =
           Inr (s\<lparr>gl_buffers := (gl_buffers s)(m_vertex_data_vbo s \<mapsto>
                    staging_bytes repr s @ drop (unat (m_data_size s)) store),
                  gl_calls := gl_calls s @
                    [GlNamedBufferSubData (m_vertex_data_vbo s) 0 (unat (m_data_size s))]\<rparr>)"
    by (simp add: ReloadData_def)
  have "take (unat (m_vertex_count s) * szT)
              (staging_bytes repr s @ drop (unat (m_data_size s)) store) =
            bytes_of repr (take (unat (m_vertex_count s)) mem)"
    if "data s = Some mem \<and> (\<forall>v. length (repr v) = szT) \<and>
        unat (m_vertex_count s) \<le> length mem" for mem
  proof -
    from that have mem: "data s = Some mem" and repr: "\<forall>v. length (repr v) = szT"
      and used: "unat (m_vertex_count s) \<le> length mem"
      by simp_all
    from used have "unat (m_vertex_count s) * szT \<le> length (bytes_of repr mem)"
      by (simp add: length_bytes_of [OF repr])
    with mem show ?thesis
      by (simp add: staging_bytes_def take_bytes_of [OF repr])
  qed
  with store upload show ?thesis
    by blast
qed

theorem ReloadData_full_sync_witness:
  "reload_ready repr28
      (fresh_batch\<lparr>data := Some ((replicate 10000000 0)[0 := 7]), m_vertex_count := 1\<rparr>) \<and>
   calls repr28 [Call_AddVertex 7] fresh_batch =
     Inr (fresh_batch\<lparr>data := Some ((replicate 10000000 0)[0 := 7]), m_vertex_count := 1\<rparr>) \<and>
   ReloadData repr28
      (fresh_batch\<lparr>data := Some ((replicate 10000000 0)[0 := 7]), m_vertex_count := 1\<rparr>) =
     Inr (fresh_batch\<lparr>data := Some ((replicate 10000000 0)[0 := 7]), m_vertex_count := 1,
            gl_buffers := (gl_buffers fresh_batch)
              (1 \<mapsto> bytes_of repr28 ((replicate 10000000 0)[0 := 7])),
            gl_calls := gl_calls fresh_batch @ [GlNamedBufferSubData 1 0 280000000]\<rparr>) \<and>
   take 28 (bytes_of repr28 ((replicate 10000000 0)[0 := 7])) = replicate 28 7"
proof -
  let ?mem = "(replicate 10000000 (0::nat))[0 := 7]"
  let ?s = "fresh_batch\<lparr>data := Some ?mem, m_vertex_count := 1\<rparr>"
  have inv: "reload_ready repr28 ?s"
    by (simp add: reload_ready_def staging_bytes_def fresh_batch_members)
  have run: "calls repr28 [Call_AddVertex 7] fresh_batch = Inr ?s"
    by (simp add: fresh_batch_AddVertex)
  have one: "take 1 ?mem = [7]"
    by (simp add: take_Suc_conv_app_nth)
  have repr: "\<forall>v. length (repr28 v) = 28"
    by (simp add: repr28_def)
  from ReloadData_full_sync [OF inv, of 28] repr one
  have "ReloadData repr28 ?s =
     Inr (?s\<lparr>gl_buffers := (gl_buffers fresh_batch)(1 \<mapsto> bytes_of repr28 ?mem),
            gl_calls := gl_calls fresh_batch @ [GlNamedBufferSubData 1 0 280000000]\<rparr>) \<and>
   take 28 (bytes_of repr28 ?mem) = replicate 28 7"
    by (simp add: fresh_batch_members staging_bytes_def bytes_of_def repr28_def)
  with inv run show ?thesis
    by simp
qed

text \<open>
  C5. On a batch whose count is zero (freshly initialized or cleared), after single-vertex
  \<^verbatim>\<open>AddVertex\<close> calls with the vertices \<open>vs\<close>, each of them successful, the count is the
  number of calls and staging slot \<open>i\<close> holds the vertex of call \<open>i\<close>, for every \<open>i\<close> below
  that number: the vertices lie in the staging allocation in call order.
\<close>

theorem single_vertices_fill_slots_in_call_order:
  assumes "m_vertex_count s = 0" and "each_successful vs s"
  shows "\<exists>s'. AddVertex_each vs s = Inr s' \<and>
           unat (m_vertex_count s') = length vs \<and>
           (\<forall>i<length vs. slot s' i = Some (vs ! i))"
  using AddVertex_each_slots_from [OF assms(2)] assms(1) by auto

theorem single_vertices_fill_slots_in_call_order_witness:
  "m_vertex_count fresh_batch = 0 \<and> each_successful [7, 8, 9] fresh_batch \<and>
   (\<exists>s'. AddVertex_each [7, 8, 9] fresh_batch = Inr s' \<and>
      unat (m_vertex_count s') = 3 \<and>
      slot s' 0 = Some 7 \<and> slot s' 1 = Some 8 \<and> slot s' 2 = Some 9)"
proof -
  have ok: "each_successful [7, 8, 9] fresh_batch"
    by (rule each_successful_if_room [of _ "replicate 10000000 0"])
      (simp_all add: fresh_batch_members kMaxBatchSize_def)
  from single_vertices_fill_slots_in_call_order [OF fresh_batch_members(1) ok]
  obtain s' where run: "AddVertex_each [7, 8, 9] fresh_batch = Inr s'"
    and count: "unat (m_vertex_count s') = length [7 :: nat, 8, 9]"
    and slots: "\<forall>i<length [7 :: nat, 8, 9]. slot s' i = Some ([7, 8, 9] ! i)"
    by blast
  from slots [rule_format, of 0] slots [rule_format, of 1] slots [rule_format, of 2]
  have "slot s' 0 = Some 7" "slot s' 1 = Some 8" "slot s' 2 = Some 9"
    by simp_all
  with run count ok show ?thesis
    by (simp add: fresh_batch_members)
qed

text \<open>
  C1. The code at the two inputs where an accumulate call would exceed the capacity of an
  initialized batch. With the count at \<open>kMaxBatchSize\<close>, the single-vertex \<^verbatim>\<open>AddVertex\<close>
  is not rejected: \<^verbatim>\<open>hasRoom\<close> compares with \<^verbatim>\<open><=\<close>, and the call stores to
  \<^verbatim>\<open>data[kMaxBatchSize]\<close>, one record past the allocation. On the freshly initialized
  batch, the bulk \<^verbatim>\<open>AddVertex\<close> with \<open>kMaxBatchSize + 1\<close> vertices is not rejected either:
  the check looks at the count it finds, not at the amount, and the count ends at
  \<open>kMaxBatchSize + 1\<close>.
\<close>

theorem capacity_check_lets_calls_through:
  "ready (fresh_batch\<lparr>m_vertex_count := kMaxBatchSize\<rparr>) \<and>
   AddVertex 7 (fresh_batch\<lparr>m_vertex_count := kMaxBatchSize\<rparr>) = Inl Out_of_bounds_write \<and>
   ready fresh_batch \<and> m_vertex_count fresh_batch = 0 \<and>
   AddVertex_bulk repr28 (replicate 10000001 7) 10000001 fresh_batch =
     Inr (fresh_batch\<lparr>gl_calls := gl_calls fresh_batch @ [GlNamedBufferSubData 1 0 280000028],
            m_vertex_count := 10000001\<rparr>) \<and>
   kMaxBatchSize < m_vertex_count (fresh_batch\<lparr>gl_calls := gl_calls fresh_batch @
          [GlNamedBufferSubData 1 0 280000028], m_vertex_count := 10000001\<rparr>)"
  by (simp add: ready_def fresh_batch_members kMaxBatchSize_def AddVertex_def
      AddVertex_bulk_def hasRoom_def glNamedBufferSubData_def Let_def gl_issue_def
      sizeof_Vertex3D_def)

end
